theory Spec2Isabelle
  imports Main "HOL-Library.Word" "HOL-Library.Sublist"
begin

section \<open>The conversion service of backend/server.py\<close>

text \<open>
  The repository is one Flask handler, \<open>convert_file\<close>, behind \<open>POST /convert\<close>.
  It is modelled as a function from an environment (what the deployment and the
  third-party libraries contribute), a request and the world (the files on disk and the
  text printed so far) to a response and the new world. Every \<open>raise\<close> is a value
  \<open>Inl e\<close>; the handler's \<open>except Exception\<close> turns it into the 500 response.
\<close>

subsection \<open>Strings: the Python string methods the handler uses\<close>

text \<open>\<open>s.split(c)\<close> for a one-character separator: never empty, \<open>''''.split(c) = ['''']\<close>.\<close>

fun py_split :: "char \<Rightarrow> string \<Rightarrow> string list" where
  "py_split c [] = [[]]"
| "py_split c (x # xs) =
     (if x = c then [] # py_split c xs
      else (case py_split c xs of
              [] \<Rightarrow> [[x]]
            | w # ws \<Rightarrow> (x # w) # ws))"

text \<open>The ASCII characters that \<open>str.split()\<close> without argument treats as white space.\<close>

definition is_space :: "char \<Rightarrow> bool" where
  "is_space c = (c \<in> set [CHR 0x09, CHR 0x0A, CHR 0x0B, CHR 0x0C, CHR 0x0D,
                           CHR 0x1C, CHR 0x1D, CHR 0x1E, CHR 0x1F, CHR '' ''])"

text \<open>\<open>s.split()\<close>: the maximal runs of non-space characters; \<open>cur\<close> is the run being read.\<close>

fun py_words :: "string \<Rightarrow> string \<Rightarrow> string list" where
  "py_words cur [] = (if cur = [] then [] else [cur])"
| "py_words cur (c # cs) =
     (if is_space c then (if cur = [] then py_words [] cs else cur # py_words [] cs)
      else py_words (cur @ [c]) cs)"

text \<open>\<open>sep.join(ws)\<close>.\<close>

fun py_join :: "string \<Rightarrow> string list \<Rightarrow> string" where
  "py_join sep [] = []"
| "py_join sep [w] = w"
| "py_join sep (w # v # ws) = w @ sep @ py_join sep (v # ws)"

text \<open>\<open>s.strip(cs)\<close>: drop the characters of \<open>cs\<close> from both ends.\<close>

definition py_strip :: "string \<Rightarrow> string \<Rightarrow> string" where
  "py_strip cs s =
     rev (dropWhile (\<lambda>c. c \<in> set cs) (rev (dropWhile (\<lambda>c. c \<in> set cs) s)))"

text \<open>\<open>str(n)\<close> for a natural number, as the f-string of the size message prints it.\<close>

fun str_nat :: "nat \<Rightarrow> string" where
  "str_nat n =
     (if n < 10 then [''0123456789'' ! n]
      else str_nat (n div 10) @ [''0123456789'' ! (n mod 10)])"

declare str_nat.simps [simp del]

subsection \<open>werkzeug.utils.secure\_filename\<close>

text \<open>
  The handler sanitises the client's file name with werkzeug's \<open>secure_filename\<close>, which
  is library code. Its steps on a POSIX host (\<open>os.sep = "/"\<close>, no \<open>os.path.altsep\<close>,
  \<open>os.name\<close> not \<open>nt\<close>) are: NFKD normalisation followed by \<open>encode("ascii", "ignore")\<close>;
  every \<open>/\<close> replaced by a space; \<open>"_".join(filename.split())\<close>; every character outside
  \<open>[A-Za-z0-9_.-]\<close> removed; \<open>strip("._")\<close>. The Unicode step is the parameter
  \<open>nfkd\<close>: nothing is assumed about it.
\<close>

definition filename_ascii_strip :: "char \<Rightarrow> bool" where
  "filename_ascii_strip c =
     (c \<notin> set ''ABCDEFGHIJKLMNOPQRSTUVWXYZabcdefghijklmnopqrstuvwxyz0123456789_.-'')"

definition secure_filename :: "(string \<Rightarrow> string) \<Rightarrow> string \<Rightarrow> string" where
  "secure_filename nfkd fname =
     (let f1 = nfkd fname;
          f2 = map (\<lambda>c. if c = CHR ''/'' then CHR '' '' else c) f1;
          f3 = py_join ''_'' (py_words [] f2);
          f4 = filter (\<lambda>c. \<not> filename_ascii_strip c) f3
      in py_strip ''._'' f4)"

subsection \<open>os.path\<close>

text \<open>\<open>posixpath.join(a, b)\<close>: an absolute \<open>b\<close> discards \<open>a\<close>.\<close>

definition path_join :: "string \<Rightarrow> string \<Rightarrow> string" where
  "path_join a b =
     (if b \<noteq> [] \<and> hd b = CHR ''/'' then b
      else if a = [] \<or> last a = CHR ''/'' then a @ b
      else a @ ''/'' @ b)"

text \<open>\<open>os.path.basename(p)\<close>: what follows the last \<open>/\<close>.\<close>

definition basename :: "string \<Rightarrow> string" where
  "basename p = rev (takeWhile (\<lambda>c. c \<noteq> CHR ''/'') (rev p))"

subsection \<open>uuid.uuid4().hex\<close>

text \<open>The 128-bit value of the UUID printed as \<open>'%032x'\<close>: 32 lower-case hex digits.\<close>

fun hex_pad :: "nat \<Rightarrow> nat \<Rightarrow> string" where
  "hex_pad 0 n = []"
| "hex_pad (Suc k) n = hex_pad k (n div 16) @ [''0123456789abcdef'' ! (n mod 16)]"

definition uuid_hex :: "128 word \<Rightarrow> string" where
  "uuid_hex u = hex_pad 32 (unat u)"

subsection \<open>The world, exceptions, requests and responses\<close>

record world =
  files :: "string \<rightharpoonup> string"
  stdout :: "string list"

datatype exn =
    IsADirectoryError string
  | FileNotFoundError string
  | OSError string
  | LibraryError string

text \<open>\<open>str(e)\<close>, which the 500 response quotes.\<close>

fun str_exn :: "exn \<Rightarrow> string" where
  "str_exn (IsADirectoryError p) = ''[Errno 21] Is a directory: '' @ [CHR 0x27] @ p @ [CHR 0x27]"
| "str_exn (FileNotFoundError m) = m"
| "str_exn (OSError m) = m"
| "str_exn (LibraryError m) = m"

text \<open>The part named \<open>file\<close> of the multipart form: the client's file name and the bytes.\<close>

record upload =
  file_name :: string
  file_data :: string

text \<open>\<open>request.files.get("file")\<close> and \<open>request.form.get("type")\<close>.\<close>

record request =
  file_part :: "upload option"
  type_field :: "string option"

text \<open>
  \<open>Json status message\<close> is \<open>jsonify({"error": message}), status\<close>;
  \<open>SendFile path download_name mimetype body\<close> is the \<open>send_file\<close> response, which has
  status 200 and the bytes of the file at \<open>path\<close> as its body.
\<close>

datatype response =
    Json nat string
  | SendFile string string string string

fun status :: "response \<Rightarrow> nat" where
  "status (Json s m) = s"
| "status (SendFile p n t b) = 200"

subsection \<open>The reportlab canvas\<close>

text \<open>
  The handler drives a reportlab \<open>Canvas\<close> through four methods. The model records the
  calls in order; \<open>Save\<close> is \<open>pdf.save()\<close>.
\<close>

datatype canvas_call =
    SetFont string nat
  | DrawString int int string
  | ShowPage
  | Save

text \<open>
  Lines 60 to 68: the loop over \<open>doc.paragraphs\<close>, with \<open>y\<close> the local \<open>y_position\<close> and
  \<open>pdf\<close> the calls made so far.
\<close>

fun para_loop :: "string list \<Rightarrow> int \<Rightarrow> canvas_call list \<Rightarrow> canvas_call list" where
  "para_loop [] y pdf = pdf"
| "para_loop (para # paras) y pdf =
     (let pdf1 = pdf @ [DrawString 50 y para];
          y1 = y - 20
      in if y1 < 50
         then para_loop paras 800 (pdf1 @ [ShowPage, SetFont ''Helvetica'' 12])
         else para_loop paras y1 pdf1)"

text \<open>Lines 57 to 70: every call the handler makes on the canvas for the paragraphs.\<close>

definition canvas_calls :: "string list \<Rightarrow> canvas_call list" where
  "canvas_calls paras = para_loop paras 800 [SetFont ''Helvetica'' 12] @ [Save]"

text \<open>
  The pages reportlab builds from the calls. A canvas holds the finished pages and the
  operators of the page in progress (\<open>_code\<close>): \<open>setFont\<close> with a standard font and
  \<open>drawString\<close> append an operator, \<open>showPage\<close> closes the page and starts an empty one,
  and \<open>save\<close> first runs \<open>showPage\<close> when the page in progress has any operator
  (\<open>if len(self._code): self.showPage()\<close>).
\<close>

fun canvas_step :: "canvas_call list list \<times> canvas_call list \<Rightarrow> canvas_call
                     \<Rightarrow> canvas_call list list \<times> canvas_call list" where
  "canvas_step (pages, code) ShowPage = (pages @ [code], [])"
| "canvas_step (pages, code) Save = (if code \<noteq> [] then (pages @ [code], []) else (pages, code))"
| "canvas_step (pages, code) c = (pages, code @ [c])"

definition pdf_pages :: "canvas_call list \<Rightarrow> canvas_call list list" where
  "pdf_pages calls = fst (foldl canvas_step ([], []) calls)"

subsection \<open>The environment of a request\<close>

text \<open>
  What the deployment and the libraries contribute to one request:
  \<^item> \<open>base_dir\<close>: the directory of server.py (\<open>BASE_DIR\<close>);
  \<^item> \<open>uuid4\<close>: the value \<open>uuid.uuid4()\<close> returns for this request;
  \<^item> \<open>ascii_fold\<close>: the Unicode step of \<open>secure_filename\<close>;
  \<^item> \<open>disk_error\<close>: the message of the \<open>OSError\<close> with which the operating system
    refuses to write a path (disk full, permissions), if it does;
  \<^item> \<open>docx_paragraphs\<close>: python-docx, the texts of \<open>Document(bytes).paragraphs\<close> or the
    message of the exception it raises;
  \<^item> \<open>pdf_serialize\<close>: reportlab, the bytes \<open>save()\<close> writes for a sequence of canvas calls;
  \<^item> \<open>pdf2docx_convert\<close>: pdf2docx, the bytes it writes for a PDF (\<open>None\<close> when it
    returns without writing a file) or the message of the exception it raises.
\<close>

record env =
  base_dir :: string
  uuid4 :: "128 word"
  ascii_fold :: "string \<Rightarrow> string"
  disk_error :: "string \<Rightarrow> string option"
  docx_paragraphs :: "string \<Rightarrow> string + string list"
  pdf_serialize :: "canvas_call list \<Rightarrow> string"
  pdf2docx_convert :: "string \<Rightarrow> string + string option"

definition UPLOAD_FOLDER :: "env \<Rightarrow> string" where
  "UPLOAD_FOLDER e = path_join (base_dir e) ''uploads''"

definition CONVERTED_FOLDER :: "env \<Rightarrow> string" where
  "CONVERTED_FOLDER e = path_join (base_dir e) ''converted''"

subsection \<open>Files and printing\<close>

definition print :: "string \<Rightarrow> world \<Rightarrow> world" where
  "print s w = w\<lparr>stdout := stdout w @ [s]\<rparr>"

text \<open>\<open>os.path.exists\<close> and \<open>os.path.getsize\<close> on the files of the world.\<close>

definition path_exists :: "world \<Rightarrow> string \<Rightarrow> bool" where
  "path_exists w p = (files w p \<noteq> None)"

definition getsize :: "world \<Rightarrow> string \<Rightarrow> nat" where
  "getsize w p = (case files w p of None \<Rightarrow> 0 | Some b \<Rightarrow> length b)"

text \<open>
  \<open>open(p, "wb")\<close> followed by the write, as \<open>file.save\<close>, \<open>pdf.save\<close> and pdf2docx do it:
  the empty path and a path that ends in \<open>/\<close> cannot be opened for writing, and the
  operating system may refuse any other.
\<close>

definition fs_write :: "env \<Rightarrow> string \<Rightarrow> string \<Rightarrow> world \<Rightarrow> exn + world" where
  "fs_write e p b w =
     (if p = [] then Inl (FileNotFoundError (''[Errno 2] No such file or directory: '' @ [CHR 0x27, CHR 0x27]))
      else if last p = CHR ''/'' then Inl (IsADirectoryError p)
      else (case disk_error e p of
              Some m \<Rightarrow> Inl (OSError m)
            | None \<Rightarrow> Inr (w\<lparr>files := (files w)(p \<mapsto> b)\<rparr>)))"

subsection \<open>The two converters\<close>

text \<open>Lines 46 to 48: \<open>Converter(filepath)\<close>, \<open>convert\<close>, \<open>close\<close>.\<close>

definition pdf_to_docx :: "env \<Rightarrow> string \<Rightarrow> string \<Rightarrow> world \<Rightarrow> (exn + unit) \<times> world" where
  "pdf_to_docx e filepath converted_path w =
     (case files w filepath of
        None \<Rightarrow> (Inl (FileNotFoundError (''no such file: '' @ filepath)), w)
      | Some pdf \<Rightarrow>
          (case pdf2docx_convert e pdf of
             Inl m \<Rightarrow> (Inl (LibraryError m), w)
           | Inr None \<Rightarrow> (Inr (), w)
           | Inr (Some docx) \<Rightarrow>
               (case fs_write e converted_path docx w of
                  Inl x \<Rightarrow> (Inl x, w)
                | Inr w' \<Rightarrow> (Inr (), w'))))"

text \<open>Lines 56 to 70: \<open>Document(filepath)\<close>, the canvas calls and \<open>pdf.save()\<close>.\<close>

definition docx_to_pdf :: "env \<Rightarrow> string \<Rightarrow> string \<Rightarrow> world \<Rightarrow> (exn + unit) \<times> world" where
  "docx_to_pdf e filepath converted_path w =
     (case files w filepath of
        None \<Rightarrow> (Inl (FileNotFoundError (''Package not found at '' @ filepath)), w)
      | Some docx \<Rightarrow>
          (case docx_paragraphs e docx of
             Inl m \<Rightarrow> (Inl (LibraryError m), w)
           | Inr paras \<Rightarrow>
               (case fs_write e converted_path (pdf_serialize e (canvas_calls paras)) w of
                  Inl x \<Rightarrow> (Inl x, w)
                | Inr w' \<Rightarrow> (Inr (), w'))))"

subsection \<open>The handler\<close>

text \<open>Lines 75 to 87: the existence test, the two messages, \<open>send_file\<close> or the raise.\<close>

definition send_converted :: "string \<Rightarrow> string \<Rightarrow> world \<Rightarrow> (exn + response) \<times> world" where
  "send_converted conversion_type converted_path w =
     (if converted_path \<noteq> [] \<and> path_exists w converted_path
      then
        (let w1 = print (''Sending file: '' @ converted_path) w;
             w2 = print (''File size: '' @ str_nat (getsize w1 converted_path) @ '' bytes'') w1
         in (Inr (SendFile converted_path (basename converted_path)
                    (if conversion_type = ''docx-to-pdf'' then ''application/pdf''
                     else ''application/vnd.openxmlformats-officedocument.wordprocessingml.document'')
                    (case files w2 converted_path of None \<Rightarrow> [] | Some b \<Rightarrow> b)),
             w2))
      else (Inl (FileNotFoundError (''Converted file not found: '' @ converted_path)), w))"

text \<open>Lines 25 to 87: the body of the \<open>try\<close>.\<close>

definition convert_try :: "env \<Rightarrow> request \<Rightarrow> world \<Rightarrow> (exn + response) \<times> world" where
  "convert_try e req w =
     (case file_part req of
        None \<Rightarrow> (Inr (Json 400 ''No file uploaded''), w)
      | Some file \<Rightarrow>
          (case type_field req of
             None \<Rightarrow> (Inr (Json 400 ''Conversion type not specified''), w)
           | Some conversion_type \<Rightarrow>
               if conversion_type = [] then (Inr (Json 400 ''Conversion type not specified''), w)
               else
                 (let filename = secure_filename (ascii_fold e) (file_name file);
                      filepath = path_join (UPLOAD_FOLDER e) filename
                  in case fs_write e filepath (file_data file) w of
                       Inl x \<Rightarrow> (Inl x, w)
                     | Inr w1 \<Rightarrow>
                         (let w2 = print (''Uploaded file saved at: '' @ filepath) w1;
                              unique_filename =
                                hd (py_split CHR ''.'' filename) @ ''-'' @ uuid_hex (uuid4 e)
                          in if conversion_type = ''pdf-to-docx'' then
                               (let converted_path =
                                      path_join (CONVERTED_FOLDER e) (unique_filename @ ''.docx'');
                                    w3 = print (''Converting PDF to DOCX: '' @ filepath @ '' -> ''
                                                @ converted_path) w2
                                in case pdf_to_docx e filepath converted_path w3 of
                                     (Inl x, w4) \<Rightarrow> (Inl x, w4)
                                   | (Inr u, w4) \<Rightarrow>
                                       send_converted conversion_type converted_path w4)
                             else if conversion_type = ''docx-to-pdf'' then
                               (let converted_path =
                                      path_join (CONVERTED_FOLDER e) (unique_filename @ ''.pdf'');
                                    w3 = print (''Converting DOCX to PDF: '' @ filepath @ '' -> ''
                                                @ converted_path) w2
                                in case docx_to_pdf e filepath converted_path w3 of
                                     (Inl x, w4) \<Rightarrow> (Inl x, w4)
                                   | (Inr u, w4) \<Rightarrow>
                                       send_converted conversion_type converted_path w4)
                             else (Inr (Json 400 ''Invalid conversion type''), w2)))))"

text \<open>Lines 23 to 91: the handler, with its \<open>except Exception\<close>.\<close>

definition convert_file :: "env \<Rightarrow> request \<Rightarrow> world \<Rightarrow> response \<times> world" where
  "convert_file e req w =
     (case convert_try e req w of
        (Inr resp, w') \<Rightarrow> (resp, w')
      | (Inl x, w') \<Rightarrow>
          (Json 500 (''Conversion failed: '' @ str_exn x),
           print (''Error during conversion: '' @ str_exn x) w'))"

subsection \<open>Notions the properties are stated with\<close>

text \<open>The text-drawing calls, the font calls, and how many of each kind a sequence holds.\<close>

fun is_draw :: "canvas_call \<Rightarrow> bool" where
  "is_draw (DrawString x y t) = True"
| "is_draw c = False"

fun is_font :: "canvas_call \<Rightarrow> bool" where
  "is_font (SetFont f s) = True"
| "is_font c = False"

definition drawn :: "canvas_call list \<Rightarrow> nat" where
  "drawn calls = length (filter is_draw calls)"

definition breaks :: "canvas_call list \<Rightarrow> nat" where
  "breaks calls = length (filter (\<lambda>c. c = ShowPage) calls)"

text \<open>
  The calls for the paragraph with index \<open>i\<close> (from 0), in closed form: the line is drawn
  at \<open>800 - 20 * (i mod 38)\<close>, and the 38th line of a page is followed by the page break
  and the font of the next page.
\<close>

definition line_calls :: "nat \<Rightarrow> string \<Rightarrow> canvas_call list" where
  "line_calls i para =
     DrawString 50 (800 - 20 * int (i mod 38)) para #
     (if i mod 38 = 37 then [ShowPage, SetFont ''Helvetica'' 12] else [])"

fun lines_from :: "nat \<Rightarrow> string list \<Rightarrow> canvas_call list" where
  "lines_from k [] = []"
| "lines_from k (para # paras) = line_calls k para @ lines_from (Suc k) paras"

text \<open>
  Where a path leads: its components, with empty components and \<open>.\<close> skipped and \<open>..\<close>
  leaving the directory reached so far. A path is within a directory when it leads
  to the directory or below it.
\<close>

fun normpath_step :: "string list \<Rightarrow> string \<Rightarrow> string list" where
  "normpath_step acc c =
     (if c = [] \<or> c = ''.'' then acc
      else if c = ''..'' then butlast acc
      else acc @ [c])"

definition normpath_parts :: "string \<Rightarrow> string list" where
  "normpath_parts p = foldl normpath_step [] (py_split CHR ''/'' p)"

definition within_dir :: "string \<Rightarrow> string \<Rightarrow> bool" where
  "within_dir d p = prefix (normpath_parts d) (normpath_parts p)"

text \<open>The extension of a file name or path: from its last dot on, empty without a dot.\<close>

definition extension :: "string \<Rightarrow> string" where
  "extension p =
     (if CHR ''.'' \<in> set p then CHR ''.'' # rev (takeWhile (\<lambda>c. c \<noteq> CHR ''.'') (rev p))
      else [])"

text \<open>
  The name the specification gives the artifact, in its words: the sanitized name with
  its extension removed, a hyphen, the random token, a dot and the extension of the
  target format.
\<close>

definition spec_base_name :: "string \<Rightarrow> string" where
  "spec_base_name name = take (length name - length (extension name)) name"

definition spec_artifact_name :: "string \<Rightarrow> string \<Rightarrow> string \<Rightarrow> string" where
  "spec_artifact_name name token ext = spec_base_name name @ ''-'' @ token @ ''.'' @ ext"

text \<open>The file name a response offers the client (\<open>download_name\<close> of \<open>send_file\<close>).\<close>

fun download_name :: "response \<Rightarrow> string" where
  "download_name (SendFile p n t b) = n"
| "download_name (Json s m) = []"

subsection \<open>A concrete deployment\<close>

text \<open>
  An environment to evaluate the handler in: the service lives in \<open>/srv\<close>, the UUID is 0,
  the disk accepts every write, a DOCX is read as one paragraph per line of its bytes,
  a PDF is written as a header followed by the drawn texts, and pdf2docx returns its
  input. Two variants change what pdf2docx does: one writes an empty file, the other
  returns without writing. In a third the disk is full and refuses every write.
\<close>

definition example_env :: env where
  "example_env =
     \<lparr>base_dir = ''/srv'', uuid4 = 0, ascii_fold = (\<lambda>s. s), disk_error = (\<lambda>p. None),
      docx_paragraphs = (\<lambda>b. Inr (py_split (CHR 0x0A) b)),
      pdf_serialize = (\<lambda>cs. ''%PDF'' @ concat (map (\<lambda>c. case c of DrawString x y t \<Rightarrow> t | _ \<Rightarrow> []) cs)),
      pdf2docx_convert = (\<lambda>b. Inr (Some b))\<rparr>"

definition empty_output_env :: env where
  "empty_output_env = example_env\<lparr>pdf2docx_convert := (\<lambda>b. Inr (Some []))\<rparr>"

definition no_output_env :: env where
  "no_output_env = example_env\<lparr>pdf2docx_convert := (\<lambda>b. Inr None)\<rparr>"

definition full_disk_env :: env where
  "full_disk_env = example_env\<lparr>disk_error := (\<lambda>p. Some ''[Errno 28] No space left on device'')\<rparr>"

definition empty_world :: world where
  "empty_world = \<lparr>files = Map.empty, stdout = []\<rparr>"

definition example_request :: "string \<Rightarrow> string \<Rightarrow> string \<Rightarrow> request" where
  "example_request name bytes type =
     \<lparr>file_part = Some \<lparr>file_name = name, file_data = bytes\<rparr>, type_field = Some type\<rparr>"

definition no_file_request :: "string \<Rightarrow> request" where
  "no_file_request type = \<lparr>file_part = None, type_field = Some type\<rparr>"

section \<open>Properties\<close>

subsection \<open>The paragraph loop\<close>

lemma para_loop_trace:
  "para_loop paras (800 - 20 * int (k mod 38)) pdf = pdf @ lines_from k paras"
proof (induction paras arbitrary: k pdf)
  case Nil
  show ?case by simp
next
  case (Cons para paras)
  have lt: "k mod 38 < 38" by simp
  show ?case
  proof (cases "k mod 38 = 37")
    case True
    then have nxt: "Suc k mod 38 = 0" by (simp add: mod_Suc)
    have "para_loop (para # paras) (800 - 20 * int (k mod 38)) pdf =
            para_loop paras (800 - 20 * int (Suc k mod 38))
              (pdf @ [DrawString 50 (800 - 20 * int (k mod 38)) para, ShowPage, SetFont ''Helvetica'' 12])"
      using True nxt by (simp add: Let_def)
    then show ?thesis
      using True by (simp add: Cons.IH line_calls_def)
  next
    case False
    then have nxt: "Suc k mod 38 = Suc (k mod 38)" by (simp add: mod_Suc)
    from False lt have le: "k mod 38 \<le> 36" by linarith
    have "para_loop (para # paras) (800 - 20 * int (k mod 38)) pdf =
            para_loop paras (800 - 20 * int (Suc k mod 38))
              (pdf @ [DrawString 50 (800 - 20 * int (k mod 38)) para])"
      using le nxt by (simp add: Let_def)
    then show ?thesis
      using False by (simp add: Cons.IH line_calls_def)
  qed
qed

lemma canvas_calls_trace:
  "canvas_calls paras = SetFont ''Helvetica'' 12 # lines_from 0 paras @ [Save]"
  using para_loop_trace [of paras 0 "[SetFont ''Helvetica'' 12]"]
  by (simp add: canvas_calls_def)

lemma draws_of_lines:
  "filter is_draw (lines_from k paras) =
     map (\<lambda>(i, para). DrawString 50 (800 - 20 * int (i mod 38)) para) (enumerate k paras)"
  by (induction paras arbitrary: k) (simp_all add: line_calls_def)

lemma breaks_of_lines: "breaks (lines_from k paras) + k div 38 = (k + length paras) div 38"
proof (induction paras arbitrary: k)
  case Nil
  show ?case by (simp add: breaks_def)
next
  case (Cons para paras)
  have s: "Suc k div 38 = k div 38 + (if k mod 38 = 37 then 1 else 0)"
    by (simp add: div_Suc mod_Suc)
  have b: "breaks (lines_from k (para # paras)) =
           (if k mod 38 = 37 then 1 else 0) + breaks (lines_from (Suc k) paras)"
    by (simp add: breaks_def line_calls_def)
  from Cons.IH [of "Suc k"] s b show ?case
    by (cases "k mod 38 = 37") simp_all
qed

lemma fonts_of_lines:
  "filter is_font (lines_from k paras) =
     replicate (breaks (lines_from k paras)) (SetFont ''Helvetica'' 12)"
  by (induction paras arbitrary: k) (simp_all add: breaks_def line_calls_def)

lemma pages_of_lines:
  "code \<noteq> [] \<Longrightarrow> drawn code = k mod 38 \<Longrightarrow>
   foldl canvas_step (pages, code) (lines_from k paras) = (pages', code') \<Longrightarrow>
   code' \<noteq> [] \<and> drawn code' = (k + length paras) mod 38 \<and>
   map drawn pages' = map drawn pages @ replicate (breaks (lines_from k paras)) 38"
proof (induction paras arbitrary: k pages code)
  case Nil
  then show ?case by (auto simp: breaks_def)
next
  case (Cons para paras)
  show ?case
  proof (cases "k mod 38 = 37")
    case True
    then have nxt: "Suc k mod 38 = 0" by (simp add: mod_Suc)
    let ?pg = "code @ [DrawString 50 (800 - 20 * int (k mod 38)) para]"
    from Cons.prems(3) True
    have f: "foldl canvas_step (pages @ [?pg], [SetFont ''Helvetica'' 12])
               (lines_from (Suc k) paras) = (pages', code')"
      by (simp add: line_calls_def)
    have d: "drawn [SetFont ''Helvetica'' 12] = Suc k mod 38"
      using nxt by (simp add: drawn_def)
    have ih: "code' \<noteq> [] \<and> drawn code' = (Suc k + length paras) mod 38 \<and>
       map drawn pages' = map drawn (pages @ [?pg]) @ replicate (breaks (lines_from (Suc k) paras)) 38"
      by (rule Cons.IH [OF _ d f]) simp
    have cnt: "drawn ?pg = 38"
      using Cons.prems(2) True by (simp add: drawn_def)
    have b: "breaks (lines_from k (para # paras)) = Suc (breaks (lines_from (Suc k) paras))"
      using True by (simp add: breaks_def line_calls_def)
    from ih cnt b show ?thesis by (simp add: replicate_append_same)
  next
    case False
    then have nxt: "Suc k mod 38 = Suc (k mod 38)" by (simp add: mod_Suc)
    let ?code = "code @ [DrawString 50 (800 - 20 * int (k mod 38)) para]"
    from Cons.prems(3) False
    have f: "foldl canvas_step (pages, ?code) (lines_from (Suc k) paras) = (pages', code')"
      by (simp add: line_calls_def)
    have d: "drawn ?code = Suc k mod 38"
      using nxt Cons.prems(2) by (simp add: drawn_def)
    have ih: "code' \<noteq> [] \<and> drawn code' = (Suc k + length paras) mod 38 \<and>
       map drawn pages' = map drawn pages @ replicate (breaks (lines_from (Suc k) paras)) 38"
      by (rule Cons.IH [OF _ d f]) simp
    have b: "breaks (lines_from k (para # paras)) = breaks (lines_from (Suc k) paras)"
      using False by (simp add: breaks_def line_calls_def)
    from ih b show ?thesis by simp
  qed
qed

lemma pdf_pages_lines:
  "map drawn (pdf_pages (canvas_calls paras)) =
     replicate (length paras div 38) 38 @ [length paras mod 38]"
proof -
  obtain pages' code' where
    f: "foldl canvas_step ([], [SetFont ''Helvetica'' 12]) (lines_from 0 paras) = (pages', code')"
    by (cases "foldl canvas_step ([], [SetFont ''Helvetica'' 12]) (lines_from 0 paras)")
  have d: "drawn [SetFont ''Helvetica'' 12] = 0 mod 38" by (simp add: drawn_def)
  have "code' \<noteq> [] \<and> drawn code' = (0 + length paras) mod 38 \<and>
        map drawn pages' = map drawn [] @ replicate (breaks (lines_from 0 paras)) 38"
    by (rule pages_of_lines [OF _ d f]) simp
  moreover have "breaks (lines_from 0 paras) = length paras div 38"
    using breaks_of_lines [of 0 paras] by simp
  ultimately show ?thesis
    by (simp add: pdf_pages_def canvas_calls_trace f)
qed

lemma pdf_pages_count: "length (pdf_pages (canvas_calls paras)) = length paras div 38 + 1"
proof -
  have "length (map drawn (pdf_pages (canvas_calls paras))) = length paras div 38 + 1"
    by (simp only: pdf_pages_lines) simp
  then show ?thesis by simp
qed

subsection \<open>File names and paths\<close>

lemma py_split_not_Nil: "py_split c s \<noteq> []"
  by (induction s) (auto split: list.splits)

lemma hd_py_split: "hd (py_split c s) = takeWhile (\<lambda>x. x \<noteq> c) s"
  by (induction s) (auto split: list.splits simp: py_split_not_Nil)

lemma py_split_no_sep: "c \<notin> set s \<Longrightarrow> py_split c s = [s]"
  by (induction s) auto

lemma py_split_append: "py_split c (a @ c # b) = py_split c a @ py_split c b"
  by (induction a) (auto split: list.splits simp: py_split_not_Nil)

lemma set_py_strip: "set (py_strip cs s) \<subseteq> set s"
proof -
  have "set (py_strip cs s) \<subseteq> set (dropWhile (\<lambda>c. c \<in> set cs) s)"
    unfolding py_strip_def using set_dropWhileD by fastforce
  also have "\<dots> \<subseteq> set s" using set_dropWhileD by fastforce
  finally show ?thesis .
qed

lemma hd_py_strip:
  assumes "py_strip cs s \<noteq> []"
  shows "hd (py_strip cs s) \<notin> set cs"
proof -
  let ?P = "\<lambda>c. c \<in> set cs"
  let ?ys = "dropWhile ?P s"
  have split: "?ys = py_strip cs s @ rev (takeWhile ?P (rev ?ys))"
  proof -
    have "rev (dropWhile ?P (rev ?ys)) @ rev (takeWhile ?P (rev ?ys)) =
            rev (takeWhile ?P (rev ?ys) @ dropWhile ?P (rev ?ys))"
      by (simp only: rev_append)
    also have "\<dots> = ?ys"
      by (simp only: takeWhile_dropWhile_id rev_rev_ident)
    finally show ?thesis by (simp add: py_strip_def)
  qed
  have ne: "?ys \<noteq> []"
  proof
    assume a: "?ys = []"
    have "py_strip cs s = []" unfolding py_strip_def a by simp
    with assms show False by simp
  qed
  from split assms have "hd ?ys = hd (py_strip cs s)"
    by (metis hd_append2)
  moreover from ne have "\<not> ?P (hd ?ys)" by (rule hd_dropWhile)
  ultimately show ?thesis by simp
qed

lemma secure_filename_chars:
  "c \<in> set (secure_filename nfkd fname) \<Longrightarrow> \<not> filename_ascii_strip c"
proof -
  assume "c \<in> set (secure_filename nfkd fname)"
  then have "c \<in> set (filter (\<lambda>c. \<not> filename_ascii_strip c)
               (py_join ''_'' (py_words [] (map (\<lambda>c. if c = CHR ''/'' then CHR '' '' else c) (nfkd fname)))))"
    using set_py_strip by (fastforce simp: secure_filename_def Let_def)
  then show ?thesis by simp
qed

lemma secure_filename_no_slash: "CHR ''/'' \<notin> set (secure_filename nfkd fname)"
  using secure_filename_chars [of "CHR ''/''" nfkd fname]
  by (auto simp: filename_ascii_strip_def)

lemma secure_filename_hd:
  "secure_filename nfkd fname \<noteq> [] \<Longrightarrow> hd (secure_filename nfkd fname) \<noteq> CHR ''.''"
  using hd_py_strip [of "''._''"] by (fastforce simp: secure_filename_def Let_def)

lemma secure_filename_not_dots:
  "secure_filename nfkd fname \<noteq> ''.'' \<and> secure_filename nfkd fname \<noteq> ''..''"
  using secure_filename_hd [of nfkd fname] by auto

lemma UPLOAD_FOLDER_shape: "UPLOAD_FOLDER e \<noteq> [] \<and> last (UPLOAD_FOLDER e) = CHR ''s''"
  by (simp add: UPLOAD_FOLDER_def path_join_def)

lemma CONVERTED_FOLDER_shape: "CONVERTED_FOLDER e \<noteq> [] \<and> last (CONVERTED_FOLDER e) = CHR ''d''"
  by (simp add: CONVERTED_FOLDER_def path_join_def)

lemma path_join_relative:
  "d \<noteq> [] \<Longrightarrow> last d \<noteq> CHR ''/'' \<Longrightarrow> CHR ''/'' \<notin> set n \<Longrightarrow> path_join d n = d @ ''/'' @ n"
  by (cases n) (auto simp: path_join_def)

lemma normpath_parts_append:
  "normpath_parts (a @ CHR ''/'' # b) = foldl normpath_step (normpath_parts a) (py_split CHR ''/'' b)"
  by (simp add: normpath_parts_def py_split_append)

lemma normpath_parts_child:
  assumes "CHR ''/'' \<notin> set n" "n \<noteq> ''.''" "n \<noteq> ''..''"
  shows "normpath_parts (d @ CHR ''/'' # n) = (if n = [] then normpath_parts d else normpath_parts d @ [n])"
  using assms by (simp add: normpath_parts_append py_split_no_sep)

subsection \<open>The names of the artifact\<close>

lemma hex_digit_mem: "''0123456789abcdef'' ! (n mod 16) \<in> set ''0123456789abcdef''"
  by (rule nth_mem) simp

lemma set_hex_pad: "set (hex_pad k n) \<subseteq> set ''0123456789abcdef''"
proof (induction k arbitrary: n)
  case 0
  show ?case by simp
next
  case (Suc k)
  have "set (hex_pad (Suc k) n) = set (hex_pad k (n div 16)) \<union> {''0123456789abcdef'' ! (n mod 16)}"
    by simp
  with Suc.IH [of "n div 16"] hex_digit_mem [of n] show ?case by blast
qed

lemma length_hex_pad: "length (hex_pad k n) = k"
  by (induction k arbitrary: n) simp_all

lemma length_uuid_hex: "length (uuid_hex u) = 32"
  by (simp add: uuid_hex_def length_hex_pad)

lemma uuid_hex_chars: "CHR ''/'' \<notin> set (uuid_hex u) \<and> CHR ''.'' \<notin> set (uuid_hex u)"
  using set_hex_pad [of 32 "unat u"] by (auto simp: uuid_hex_def)

lemma stem_chars:
  "CHR ''/'' \<notin> set (hd (py_split CHR ''.'' (secure_filename nfkd fname)) @ ''-'' @ uuid_hex u) \<and>
   CHR ''.'' \<notin> set (hd (py_split CHR ''.'' (secure_filename nfkd fname)) @ ''-'' @ uuid_hex u)"
proof -
  let ?n = "secure_filename nfkd fname"
  have "set (takeWhile (\<lambda>x. x \<noteq> CHR ''.'') ?n) \<subseteq> set ?n"
    using set_takeWhileD by fastforce
  then have a: "CHR ''/'' \<notin> set (takeWhile (\<lambda>x. x \<noteq> CHR ''.'') ?n)"
    using secure_filename_no_slash [of nfkd fname] by blast
  have b: "CHR ''.'' \<notin> set (takeWhile (\<lambda>x. x \<noteq> CHR ''.'') ?n)"
    using set_takeWhileD by fastforce
  from a b uuid_hex_chars [of u] show ?thesis by (simp add: hd_py_split)
qed

lemma basename_child: "CHR ''/'' \<notin> set n \<Longrightarrow> basename (d @ ''/'' @ n) = n"
proof -
  assume ns: "CHR ''/'' \<notin> set n"
  then have all: "\<forall>c\<in>set (rev n). c \<noteq> CHR ''/''" by auto
  have "takeWhile (\<lambda>c. c \<noteq> CHR ''/'') (rev n @ CHR ''/'' # rev d) = rev n"
    using all by (simp add: takeWhile_tail)
  then show ?thesis by (simp add: basename_def)
qed

lemma extension_pdf: "extension (x @ ''.pdf'') = ''.pdf''"
  by (simp add: extension_def)

lemma extension_docx: "extension (x @ ''.docx'') = ''.docx''"
  by (simp add: extension_def)

lemma converted_path_shape:
  assumes "ext = ''.pdf'' \<or> ext = ''.docx''"
  shows "path_join (CONVERTED_FOLDER e)
           (hd (py_split CHR ''.'' (secure_filename nfkd fname)) @ ''-'' @ uuid_hex u @ ext) =
         CONVERTED_FOLDER e @ ''/'' @
           hd (py_split CHR ''.'' (secure_filename nfkd fname)) @ ''-'' @ uuid_hex u @ ext \<and>
         basename (CONVERTED_FOLDER e @ ''/'' @
           hd (py_split CHR ''.'' (secure_filename nfkd fname)) @ ''-'' @ uuid_hex u @ ext) =
           hd (py_split CHR ''.'' (secure_filename nfkd fname)) @ ''-'' @ uuid_hex u @ ext"
proof -
  let ?stem = "hd (py_split CHR ''.'' (secure_filename nfkd fname)) @ ''-'' @ uuid_hex u"
  have ns: "CHR ''/'' \<notin> set (?stem @ ext)"
    using stem_chars [of nfkd fname u] assms by auto
  have "path_join (CONVERTED_FOLDER e) (?stem @ ext) = CONVERTED_FOLDER e @ ''/'' @ (?stem @ ext)"
    using CONVERTED_FOLDER_shape [of e] ns by (intro path_join_relative) auto
  moreover have "basename (CONVERTED_FOLDER e @ ''/'' @ (?stem @ ext)) = ?stem @ ext"
    using ns by (rule basename_child)
  ultimately show ?thesis by simp
qed

lemma spec_base_name_one_dot:
  assumes "length (filter (\<lambda>c. c = CHR ''.'') name) \<le> 1"
  shows "spec_base_name name = takeWhile (\<lambda>c. c \<noteq> CHR ''.'') name"
proof -
  let ?a = "takeWhile (\<lambda>c. c \<noteq> CHR ''.'') name"
  let ?r = "dropWhile (\<lambda>c. c \<noteq> CHR ''.'') name"
  have nm: "name = ?a @ ?r" by simp
  have na: "filter (\<lambda>c. c = CHR ''.'') ?a = []"
    using set_takeWhileD [of _ "\<lambda>c. c \<noteq> CHR ''.''" name] by (auto simp: filter_empty_conv)
  show ?thesis
  proof (cases ?r)
    case Nil
    then have "\<forall>c\<in>set name. c \<noteq> CHR ''.''" by (simp add: dropWhile_eq_Nil_conv)
    then have nodot: "CHR ''.'' \<notin> set name" by blast
    from Nil have ta: "?a = name" by (metis append_Nil2 takeWhile_dropWhile_id)
    from nodot have sb: "spec_base_name name = name"
      by (simp add: spec_base_name_def extension_def)
    show ?thesis by (simp only: sb ta)
  next
    case (Cons x b)
    have "x = hd ?r" using Cons by simp
    moreover have "\<not> (hd ?r \<noteq> CHR ''.'')" using Cons hd_dropWhile [of "\<lambda>c. c \<noteq> CHR ''.''" name] by simp
    ultimately have x: "x = CHR ''.''" by simp
    have shape: "name = ?a @ CHR ''.'' # b" using nm Cons x by simp
    have "length (filter (\<lambda>c. c = CHR ''.'') (?a @ CHR ''.'' # b)) \<le> 1"
      using assms shape by simp
    then have "filter (\<lambda>c. c = CHR ''.'') b = []" using na by simp
    then have nb: "\<forall>c\<in>set (rev b). c \<noteq> CHR ''.''" by (simp add: filter_empty_conv)
    have "takeWhile (\<lambda>c. c \<noteq> CHR ''.'') (rev b @ CHR ''.'' # rev ?a) = rev b"
      using nb by (simp add: takeWhile_tail)
    then have "extension (?a @ CHR ''.'' # b) = CHR ''.'' # b"
      by (simp add: extension_def)
    then have "spec_base_name (?a @ CHR ''.'' # b) = ?a"
      by (simp add: spec_base_name_def)
    with shape show ?thesis by simp
  qed
qed

lemma upload_write_ok:
  assumes "secure_filename (ascii_fold e) fname \<noteq> []"
    and "disk_error e (path_join (UPLOAD_FOLDER e) (secure_filename (ascii_fold e) fname)) = None"
  shows "fs_write e (path_join (UPLOAD_FOLDER e) (secure_filename (ascii_fold e) fname)) bytes w =
         Inr (w\<lparr>files := (files w)(path_join (UPLOAD_FOLDER e) (secure_filename (ascii_fold e) fname) \<mapsto> bytes)\<rparr>)"
proof -
  let ?n = "secure_filename (ascii_fold e) fname"
  have ns: "CHR ''/'' \<notin> set ?n" by (rule secure_filename_no_slash)
  have j: "path_join (UPLOAD_FOLDER e) ?n = UPLOAD_FOLDER e @ ''/'' @ ?n"
    using UPLOAD_FOLDER_shape [of e] ns by (intro path_join_relative) auto
  have "last ?n \<in> set ?n" using assms(1) by simp
  with ns have "last ?n \<noteq> CHR ''/''" by metis
  then have l: "last (path_join (UPLOAD_FOLDER e) ?n) \<noteq> CHR ''/''"
    using assms(1) by (simp add: j)
  have ne: "path_join (UPLOAD_FOLDER e) ?n \<noteq> []" by (simp add: j)
  from l ne assms(2) show ?thesis by (simp add: fs_write_def)
qed

lemma upload_write_empty_name:
  assumes "secure_filename (ascii_fold e) fname = []"
  shows "fs_write e (path_join (UPLOAD_FOLDER e) (secure_filename (ascii_fold e) fname)) bytes w =
         Inl (IsADirectoryError (UPLOAD_FOLDER e @ ''/''))"
  using UPLOAD_FOLDER_shape [of e] by (simp add: assms fs_write_def path_join_def)

lemma folders_differ:
  "UPLOAD_FOLDER e @ ''/'' @ x \<noteq> CONVERTED_FOLDER e @ ''/'' @ y"
  by (simp add: UPLOAD_FOLDER_def CONVERTED_FOLDER_def path_join_def)

subsection \<open>The handler's responses\<close>

lemma files_print [simp]: "files (print s w) = files w"
  by (simp add: print_def)

lemma stdout_print [simp]: "stdout (print s w) = stdout w @ [s]"
  by (simp add: print_def)

lemma send_converted_cases:
  "send_converted ct cp w =
     (if cp \<noteq> [] \<and> files w cp \<noteq> None
      then (Inr (SendFile cp (basename cp)
                  (if ct = ''docx-to-pdf'' then ''application/pdf''
                   else ''application/vnd.openxmlformats-officedocument.wordprocessingml.document'')
                  (the (files w cp))),
            print (''File size: '' @ str_nat (length (the (files w cp))) @ '' bytes'')
              (print (''Sending file: '' @ cp) w))
      else (Inl (FileNotFoundError (''Converted file not found: '' @ cp)), w))"
  by (auto simp: send_converted_def path_exists_def getsize_def Let_def)

lemma send_converted_SendFile:
  "send_converted ct cp w = (Inr (SendFile p n t b), w') \<Longrightarrow>
     p = cp \<and> n = basename cp \<and> files w' p = Some b \<and>
     t = (if ct = ''docx-to-pdf'' then ''application/pdf''
          else ''application/vnd.openxmlformats-officedocument.wordprocessingml.document'')"
  by (auto simp: send_converted_cases split: if_splits)

lemma convert_try_SendFile:
  assumes "type_field req = Some ct"
    and "file_part req = Some file"
    and "convert_try e req w = (Inr (SendFile p n t b), w')"
  shows "(ct = ''pdf-to-docx'' \<or> ct = ''docx-to-pdf'') \<and>
         p = path_join (CONVERTED_FOLDER e)
               (hd (py_split CHR ''.'' (secure_filename (ascii_fold e) (file_name file))) @ ''-'' @
                uuid_hex (uuid4 e) @ (if ct = ''docx-to-pdf'' then ''.pdf'' else ''.docx'')) \<and>
         n = basename p \<and>
         t = (if ct = ''docx-to-pdf'' then ''application/pdf''
              else ''application/vnd.openxmlformats-officedocument.wordprocessingml.document'') \<and>
         files w' p = Some b"
  using assms
  by (auto simp: convert_try_def Let_def split: if_splits sum.splits prod.splits
           dest!: send_converted_SendFile)

lemma convert_file_SendFile_fst:
  "fst (convert_file e req w) = SendFile p n t b \<Longrightarrow>
   convert_try e req w = (Inr (SendFile p n t b), snd (convert_file e req w))"
  by (auto simp: convert_file_def split: prod.splits sum.splits)

lemma docx_to_pdf_response:
  assumes f: "file_part req = Some file"
    and t: "type_field req = Some ''docx-to-pdf''"
    and n: "secure_filename (ascii_fold e) (file_name file) \<noteq> []"
    and d1: "disk_error e (UPLOAD_FOLDER e @ ''/'' @ secure_filename (ascii_fold e) (file_name file)) = None"
    and d2: "disk_error e (CONVERTED_FOLDER e @ ''/'' @
               hd (py_split CHR ''.'' (secure_filename (ascii_fold e) (file_name file))) @ ''-'' @
               uuid_hex (uuid4 e) @ ''.pdf'') = None"
    and p: "docx_paragraphs e (file_data file) = Inr paras"
  shows "fst (convert_file e req w) =
           SendFile
             (CONVERTED_FOLDER e @ ''/'' @
               hd (py_split CHR ''.'' (secure_filename (ascii_fold e) (file_name file))) @ ''-'' @
               uuid_hex (uuid4 e) @ ''.pdf'')
             (hd (py_split CHR ''.'' (secure_filename (ascii_fold e) (file_name file))) @ ''-'' @
               uuid_hex (uuid4 e) @ ''.pdf'')
             ''application/pdf''
             (pdf_serialize e (canvas_calls paras))"
proof -
  let ?n = "secure_filename (ascii_fold e) (file_name file)"
  let ?up = "UPLOAD_FOLDER e @ ''/'' @ ?n"
  let ?art = "hd (py_split CHR ''.'' ?n) @ ''-'' @ uuid_hex (uuid4 e) @ ''.pdf''"
  let ?cp = "CONVERTED_FOLDER e @ ''/'' @ ?art"
  have ns: "CHR ''/'' \<notin> set ?n" by (rule secure_filename_no_slash)
  have j: "path_join (UPLOAD_FOLDER e) ?n = ?up"
    using UPLOAD_FOLDER_shape [of e] ns by (intro path_join_relative) auto
  have cj: "path_join (CONVERTED_FOLDER e) (hd (py_split CHR ''.'' ?n) @ ''-'' @ uuid_hex (uuid4 e) @ ''.pdf'') = ?cp"
    and bn: "basename ?cp = ?art"
    using converted_path_shape [of "''.pdf''" e "ascii_fold e" "file_name file" "uuid4 e"] by simp_all
  from d1 have d: "disk_error e (path_join (UPLOAD_FOLDER e) ?n) = None" by (simp only: j)
  note wr = upload_write_ok [OF n d, of "file_data file" w]
  have ne: "?cp \<noteq> ?up" using folders_differ [of e ?n ?art] by (rule not_sym)
  have cw: "fs_write e ?cp bytes w' = Inr (w'\<lparr>files := (files w')(?cp \<mapsto> bytes)\<rparr>)" for bytes w'
    using d2 by (simp add: fs_write_def)
  have "\<exists>w'. convert_try e req w =
          (Inr (SendFile ?cp ?art ''application/pdf'' (pdf_serialize e (canvas_calls paras))), w')"
    using f t p wr ne j cj bn cw
    by (simp add: convert_try_def Let_def docx_to_pdf_def send_converted_cases)
  then show ?thesis by (auto simp: convert_file_def)
qed

section \<open>The claims\<close>

subsection \<open>C1: one text-drawing call per paragraph, in order\<close>

text \<open>
  C1. For a DOCX with N paragraphs and the type docx-to-pdf, the converter makes exactly
  N text-drawing calls, one per paragraph and in the order of the paragraphs. The font
  is Helvetica at size 12, set at the start and again after every page break. The
  vertical offset starts at 800 and goes down by the line height 20 with each
  paragraph; after the 38th line of a page the converter breaks the page and the offset
  is 800 again. So every call sequence is the font, the lines in their closed form and
  the final save; paragraph \<open>i\<close> is drawn at \<open>(50, 800 - 20 * (i mod 38))\<close>; there are
  \<open>N div 38\<close> page breaks; and every page closed by a break holds 38 lines. When the
  upload is stored, python-docx reads these paragraphs from it and the disk accepts the
  artifact, the response is the PDF written from exactly these calls, with the content
  type application/pdf.
\<close>

theorem C1_paragraphs_drawn_in_order:
  "canvas_calls paras = SetFont ''Helvetica'' 12 # lines_from 0 paras @ [Save] \<and>
   filter is_draw (canvas_calls paras) =
     map (\<lambda>(i, para). DrawString 50 (800 - 20 * int (i mod 38)) para) (enumerate 0 paras) \<and>
   drawn (canvas_calls paras) = length paras \<and>
   filter is_font (canvas_calls paras) =
     replicate (Suc (length paras div 38)) (SetFont ''Helvetica'' 12) \<and>
   breaks (canvas_calls paras) = length paras div 38 \<and>
   map drawn (pdf_pages (canvas_calls paras)) =
     replicate (length paras div 38) 38 @ [length paras mod 38] \<and>
   (file_part req = Some file \<and> type_field req = Some ''docx-to-pdf'' \<and>
    secure_filename (ascii_fold e) (file_name file) \<noteq> [] \<and>
    disk_error e (UPLOAD_FOLDER e @ ''/'' @ secure_filename (ascii_fold e) (file_name file)) = None \<and>
    disk_error e (CONVERTED_FOLDER e @ ''/'' @
       hd (py_split CHR ''.'' (secure_filename (ascii_fold e) (file_name file))) @ ''-'' @
       uuid_hex (uuid4 e) @ ''.pdf'') = None \<and>
    docx_paragraphs e (file_data file) = Inr paras \<longrightarrow>
      fst (convert_file e req w) =
        SendFile
          (CONVERTED_FOLDER e @ ''/'' @
             hd (py_split CHR ''.'' (secure_filename (ascii_fold e) (file_name file))) @ ''-'' @
             uuid_hex (uuid4 e) @ ''.pdf'')
          (hd (py_split CHR ''.'' (secure_filename (ascii_fold e) (file_name file))) @ ''-'' @
             uuid_hex (uuid4 e) @ ''.pdf'')
          ''application/pdf''
          (pdf_serialize e (canvas_calls paras)))"
proof -
  have b: "breaks (lines_from 0 paras) = length paras div 38"
    using breaks_of_lines [of 0 paras] by simp
  have d: "filter is_draw (canvas_calls paras) =
     map (\<lambda>(i, para). DrawString 50 (800 - 20 * int (i mod 38)) para) (enumerate 0 paras)"
    by (simp add: canvas_calls_trace draws_of_lines)
  have n: "drawn (canvas_calls paras) = length paras"
    unfolding drawn_def d by simp
  have f: "filter is_font (canvas_calls paras) =
     replicate (Suc (length paras div 38)) (SetFont ''Helvetica'' 12)"
    by (simp add: canvas_calls_trace fonts_of_lines b)
  have s: "breaks (canvas_calls paras) = length paras div 38"
    using b by (simp add: canvas_calls_trace breaks_def)
  have loop: "canvas_calls paras = SetFont ''Helvetica'' 12 # lines_from 0 paras @ [Save] \<and>
     filter is_draw (canvas_calls paras) =
       map (\<lambda>(i, para). DrawString 50 (800 - 20 * int (i mod 38)) para) (enumerate 0 paras) \<and>
     drawn (canvas_calls paras) = length paras \<and>
     filter is_font (canvas_calls paras) =
       replicate (Suc (length paras div 38)) (SetFont ''Helvetica'' 12) \<and>
     breaks (canvas_calls paras) = length paras div 38 \<and>
     map drawn (pdf_pages (canvas_calls paras)) =
       replicate (length paras div 38) 38 @ [length paras mod 38]"
    using d n f s by (simp only: canvas_calls_trace [symmetric] pdf_pages_lines simp_thms)
  from loop docx_to_pdf_response [of req "file" e paras w] show ?thesis by blast
qed

text \<open>
  C1, at a concrete request: \<open>report.docx\<close> with the two paragraphs \<open>one\<close> and \<open>two\<close>
  is answered with the PDF of the two lines drawn at 800 and 780.
\<close>

theorem C1_paragraphs_drawn_in_order_witness:
  "file_part (example_request ''report.docx'' (''one'' @ [CHR 0x0A] @ ''two'') ''docx-to-pdf'') =
     Some \<lparr>file_name = ''report.docx'', file_data = ''one'' @ [CHR 0x0A] @ ''two''\<rparr> \<and>
   type_field (example_request ''report.docx'' (''one'' @ [CHR 0x0A] @ ''two'') ''docx-to-pdf'') =
     Some ''docx-to-pdf'' \<and>
   secure_filename (ascii_fold example_env) ''report.docx'' = ''report.docx'' \<and>
   disk_error example_env (UPLOAD_FOLDER example_env @ ''/'' @ ''report.docx'') = None \<and>
   disk_error example_env (CONVERTED_FOLDER example_env @ ''/'' @ ''report-00000000000000000000000000000000.pdf'') = None \<and>
   docx_paragraphs example_env (''one'' @ [CHR 0x0A] @ ''two'') = Inr [''one'', ''two''] \<and>
   canvas_calls [''one'', ''two''] =
     [SetFont ''Helvetica'' 12, DrawString 50 800 ''one'', DrawString 50 780 ''two'', Save] \<and>
   fst (convert_file example_env
          (example_request ''report.docx'' (''one'' @ [CHR 0x0A] @ ''two'') ''docx-to-pdf'') empty_world) =
     SendFile ''/srv/converted/report-00000000000000000000000000000000.pdf'' ''report-00000000000000000000000000000000.pdf'' ''application/pdf'' ''%PDFonetwo''"
proof -
  let ?B = "''one'' @ [CHR 0x0A] @ ''two''"
  let ?F = "\<lparr>file_name = ''report.docx'', file_data = ?B\<rparr>"
  let ?R = "example_request ''report.docx'' ?B ''docx-to-pdf''"
  have f: "file_part ?R = Some ?F" by (simp add: example_request_def)
  have t: "type_field ?R = Some ''docx-to-pdf''" by (simp add: example_request_def)
  have n: "secure_filename (ascii_fold example_env) ''report.docx'' = ''report.docx''"
    by code_simp
  have d1: "disk_error example_env (UPLOAD_FOLDER example_env @ ''/'' @ ''report.docx'') = None"
    by (simp add: example_env_def)
  have d2: "disk_error example_env (CONVERTED_FOLDER example_env @ ''/'' @ ''report-00000000000000000000000000000000.pdf'') = None"
    by (simp add: example_env_def)
  have p: "docx_paragraphs example_env ?B = Inr [''one'', ''two'']" by code_simp
  have c: "canvas_calls [''one'', ''two''] =
     [SetFont ''Helvetica'' 12, DrawString 50 800 ''one'', DrawString 50 780 ''two'', Save]"
    by code_simp
  have h: "uuid_hex (uuid4 example_env) = ''00000000000000000000000000000000''" by code_simp
  have cf: "CONVERTED_FOLDER example_env = ''/srv/converted''" by code_simp
  have s: "pdf_serialize example_env
             [SetFont ''Helvetica'' 12, DrawString 50 800 ''one'', DrawString 50 780 ''two'', Save] =
           ''%PDFonetwo''"
    by (simp add: example_env_def)
  have hd: "hd (py_split CHR ''.'' ''report.docx'') = ''report''" by code_simp
  note last = C1_paragraphs_drawn_in_order [of "[''one'', ''two'']" ?R ?F example_env empty_world]
  from last f t n d1 d2 p
  have r: "fst (convert_file example_env ?R empty_world) =
     SendFile ''/srv/converted/report-00000000000000000000000000000000.pdf'' ''report-00000000000000000000000000000000.pdf'' ''application/pdf'' ''%PDFonetwo''"
    by (simp add: h cf c s hd)
  from f t n d1 d2 p c r show ?thesis by simp
qed

subsection \<open>C2: what is confirmed before the file is sent\<close>

text \<open>
  C2, as stated, fails: when pdf2docx writes an empty file, the handler answers with
  status 200 and an empty body. It tests that the artifact exists; the size is printed
  and not tested.
\<close>

theorem C2_empty_artifact_sent_counterexample:
  "fst (convert_file empty_output_env (example_request ''x.pdf'' ''%PDF-1.4'' ''pdf-to-docx'') empty_world) =
     SendFile ''/srv/converted/x-00000000000000000000000000000000.docx'' ''x-00000000000000000000000000000000.docx''
       ''application/vnd.openxmlformats-officedocument.wordprocessingml.document'' [] \<and>
   status (fst (convert_file empty_output_env (example_request ''x.pdf'' ''%PDF-1.4'' ''pdf-to-docx'')
                  empty_world)) = 200 \<and>
   getsize (snd (convert_file empty_output_env (example_request ''x.pdf'' ''%PDF-1.4'' ''pdf-to-docx'')
                   empty_world)) ''/srv/converted/x-00000000000000000000000000000000.docx'' = 0"
  by code_simp

text \<open>
  C2, amended. Whenever the handler answers with the file, the artifact exists on disk
  and the body of the response is the bytes of that file. When the upload is stored,
  pdf2docx returns without raising and without writing, and no file is at the artifact's
  path, the request fails with status 500 and the message that the converted file was
  not found.
\<close>

theorem C2_file_sent_only_if_artifact_exists:
  "(fst (convert_file e req w) = SendFile p n t b \<longrightarrow>
      files (snd (convert_file e req w)) p = Some b \<and> status (fst (convert_file e req w)) = 200) \<and>
   (file_part req = Some file \<and> type_field req = Some ''pdf-to-docx'' \<and>
    secure_filename (ascii_fold e) (file_name file) \<noteq> [] \<and>
    disk_error e (UPLOAD_FOLDER e @ ''/'' @ secure_filename (ascii_fold e) (file_name file)) = None \<and>
    pdf2docx_convert e (file_data file) = Inr None \<and>
    files w (CONVERTED_FOLDER e @ ''/'' @
             hd (py_split CHR ''.'' (secure_filename (ascii_fold e) (file_name file))) @ ''-'' @
             uuid_hex (uuid4 e) @ ''.docx'') = None \<longrightarrow>
      fst (convert_file e req w) =
        Json 500 (''Conversion failed: Converted file not found: '' @ CONVERTED_FOLDER e @ ''/'' @
                  hd (py_split CHR ''.'' (secure_filename (ascii_fold e) (file_name file))) @ ''-'' @
                  uuid_hex (uuid4 e) @ ''.docx''))"
proof -
  let ?n = "secure_filename (ascii_fold e) (file_name file)"
  let ?up = "UPLOAD_FOLDER e @ ''/'' @ ?n"
  let ?art = "hd (py_split CHR ''.'' ?n) @ ''-'' @ uuid_hex (uuid4 e) @ ''.docx''"
  let ?cp = "CONVERTED_FOLDER e @ ''/'' @ ?art"
  have a: "files (snd (convert_file e req w)) p = Some b \<and> status (fst (convert_file e req w)) = 200"
    if h: "fst (convert_file e req w) = SendFile p n t b"
  proof -
    from convert_file_SendFile_fst [OF h]
    have c: "convert_try e req w = (Inr (SendFile p n t b), snd (convert_file e req w))" .
    then obtain file' where f: "file_part req = Some file'"
      by (cases "file_part req") (auto simp: convert_try_def)
    from c f obtain ct where t: "type_field req = Some ct"
      by (cases "type_field req") (auto simp: convert_try_def)
    from convert_try_SendFile [OF t f c]
    have "files (snd (convert_file e req w)) p = Some b" by blast
    moreover from h have "status (fst (convert_file e req w)) = 200" by simp
    ultimately show ?thesis by blast
  qed
  have ns: "CHR ''/'' \<notin> set ?n" by (rule secure_filename_no_slash)
  have j: "path_join (UPLOAD_FOLDER e) ?n = ?up"
    using UPLOAD_FOLDER_shape [of e] ns by (intro path_join_relative) auto
  have cj: "path_join (CONVERTED_FOLDER e) (hd (py_split CHR ''.'' ?n) @ ''-'' @ uuid_hex (uuid4 e) @ ''.docx'') = ?cp"
    using converted_path_shape [of "''.docx''" e "ascii_fold e" "file_name file" "uuid4 e"] by simp
  have ne: "?up \<noteq> ?cp" by (rule folders_differ)
  have b: "fst (convert_file e req w) = Json 500 (''Conversion failed: Converted file not found: '' @ ?cp)"
    if h: "file_part req = Some file" "type_field req = Some ''pdf-to-docx''" "?n \<noteq> []"
      "disk_error e ?up = None" "pdf2docx_convert e (file_data file) = Inr None" "files w ?cp = None"
  proof -
    from h(4) have d: "disk_error e (path_join (UPLOAD_FOLDER e) ?n) = None" by (simp only: j)
    note wr = upload_write_ok [OF h(3) d, of "file_data file" w]
    from ne have ne': "?cp \<noteq> ?up" by (rule not_sym)
    have "\<exists>w'. convert_try e req w =
            (Inl (FileNotFoundError (''Converted file not found: '' @ ?cp)), w')"
      using h(1,2,5,6) wr ne' j cj
      by (simp add: convert_try_def Let_def pdf_to_docx_def send_converted_cases)
    then show ?thesis by (auto simp: convert_file_def)
  qed
  from a b show ?thesis by blast
qed

text \<open>
  C2 amended, at concrete requests: with a converter that returns its input the file is
  on disk when it is sent, and with a converter that writes nothing the answer is 500.
\<close>

theorem C2_file_sent_only_if_artifact_exists_witness:
  "fst (convert_file example_env (example_request ''x.pdf'' ''%PDF-1.4'' ''pdf-to-docx'') empty_world) =
     SendFile ''/srv/converted/x-00000000000000000000000000000000.docx'' ''x-00000000000000000000000000000000.docx''
       ''application/vnd.openxmlformats-officedocument.wordprocessingml.document'' ''%PDF-1.4'' \<and>
   files (snd (convert_file example_env (example_request ''x.pdf'' ''%PDF-1.4'' ''pdf-to-docx'') empty_world))
     ''/srv/converted/x-00000000000000000000000000000000.docx'' = Some ''%PDF-1.4'' \<and>
   file_part (example_request ''x.pdf'' ''%PDF-1.4'' ''pdf-to-docx'') =
     Some \<lparr>file_name = ''x.pdf'', file_data = ''%PDF-1.4''\<rparr> \<and>
   type_field (example_request ''x.pdf'' ''%PDF-1.4'' ''pdf-to-docx'') = Some ''pdf-to-docx'' \<and>
   secure_filename (ascii_fold no_output_env) ''x.pdf'' = ''x.pdf'' \<and>
   disk_error no_output_env (UPLOAD_FOLDER no_output_env @ ''/'' @ ''x.pdf'') = None \<and>
   pdf2docx_convert no_output_env ''%PDF-1.4'' = Inr None \<and>
   files empty_world (CONVERTED_FOLDER no_output_env @ ''/'' @ ''x-00000000000000000000000000000000.docx'') = None \<and>
   fst (convert_file no_output_env (example_request ''x.pdf'' ''%PDF-1.4'' ''pdf-to-docx'') empty_world) =
     Json 500 ''Conversion failed: Converted file not found: /srv/converted/x-00000000000000000000000000000000.docx''"
proof -
  let ?F = "\<lparr>file_name = ''x.pdf'', file_data = ''%PDF-1.4''\<rparr>"
  let ?R = "example_request ''x.pdf'' ''%PDF-1.4'' ''pdf-to-docx''"
  have s: "fst (convert_file example_env ?R empty_world) =
     SendFile ''/srv/converted/x-00000000000000000000000000000000.docx'' ''x-00000000000000000000000000000000.docx''
       ''application/vnd.openxmlformats-officedocument.wordprocessingml.document'' ''%PDF-1.4''"
    by code_simp
  note one = C2_file_sent_only_if_artifact_exists [of example_env ?R empty_world "''/srv/converted/x-00000000000000000000000000000000.docx''" "''x-00000000000000000000000000000000.docx''"
      "''application/vnd.openxmlformats-officedocument.wordprocessingml.document''" "''%PDF-1.4''",
      THEN conjunct1]
  from one s have r1: "files (snd (convert_file example_env ?R empty_world))
     ''/srv/converted/x-00000000000000000000000000000000.docx'' = Some ''%PDF-1.4''" by blast
  have f: "file_part ?R = Some ?F" by (simp add: example_request_def)
  have t: "type_field ?R = Some ''pdf-to-docx''" by (simp add: example_request_def)
  have n: "secure_filename (ascii_fold no_output_env) ''x.pdf'' = ''x.pdf''" by code_simp
  have d: "disk_error no_output_env (UPLOAD_FOLDER no_output_env @ ''/'' @ ''x.pdf'') = None"
    by (simp add: no_output_env_def example_env_def)
  have o: "pdf2docx_convert no_output_env ''%PDF-1.4'' = Inr None"
    by (simp add: no_output_env_def)
  have m: "files empty_world (CONVERTED_FOLDER no_output_env @ ''/'' @ ''x-00000000000000000000000000000000.docx'') = None"
    by (simp add: empty_world_def)
  have h: "uuid_hex (uuid4 no_output_env) = ''00000000000000000000000000000000''" by code_simp
  have cf: "CONVERTED_FOLDER no_output_env = ''/srv/converted''" by code_simp
  note two = C2_file_sent_only_if_artifact_exists [of no_output_env ?R empty_world _ _ _ _ ?F, THEN conjunct2]
  from two f t n d o m
  have r2: "fst (convert_file no_output_env ?R empty_world) =
     Json 500 ''Conversion failed: Converted file not found: /srv/converted/x-00000000000000000000000000000000.docx''"
    by (simp add: h cf)
  from s r1 f t n d o m r2 show ?thesis by simp
qed

subsection \<open>C3: extension and content type follow the conversion type\<close>

text \<open>
  C3. Whenever the handler answers with the file, the type is one of the two literals
  and the artifact agrees with it: for docx-to-pdf the path and the offered name have
  the extension \<open>.pdf\<close> and the content type is application/pdf; for pdf-to-docx they
  have the extension \<open>.docx\<close> and the content type is the OOXML word-processing type.
\<close>

theorem C3_extension_and_content_type_match:
  assumes "type_field req = Some ct"
    and "file_part req = Some file"
    and "fst (convert_file e req w) = SendFile p n t b"
  shows "(ct = ''docx-to-pdf'' \<and> extension p = ''.pdf'' \<and> extension n = ''.pdf'' \<and>
          t = ''application/pdf'') \<or>
         (ct = ''pdf-to-docx'' \<and> extension p = ''.docx'' \<and> extension n = ''.docx'' \<and>
          t = ''application/vnd.openxmlformats-officedocument.wordprocessingml.document'')"
proof -
  let ?stem = "hd (py_split CHR ''.'' (secure_filename (ascii_fold e) (file_name file))) @ ''-'' @
                uuid_hex (uuid4 e)"
  from assms(3) have c: "convert_try e req w = (Inr (SendFile p n t b), snd (convert_file e req w))"
    by (rule convert_file_SendFile_fst)
  note s = convert_try_SendFile [OF assms(1,2) c]
  show ?thesis
  proof (cases "ct = ''docx-to-pdf''")
    case True
    with s have p: "p = path_join (CONVERTED_FOLDER e) (?stem @ ''.pdf'')" by simp
    have sh: "path_join (CONVERTED_FOLDER e) (?stem @ ''.pdf'') = CONVERTED_FOLDER e @ ''/'' @ ?stem @ ''.pdf''"
       "basename (CONVERTED_FOLDER e @ ''/'' @ ?stem @ ''.pdf'') = ?stem @ ''.pdf''"
      using converted_path_shape [of "''.pdf''" e "ascii_fold e" "file_name file" "uuid4 e"] by simp_all
    have "extension p = ''.pdf''"
      unfolding p sh(1) using extension_pdf [of "CONVERTED_FOLDER e @ ''/'' @ ?stem"] by simp
    moreover have "extension n = ''.pdf''"
      using s p sh extension_pdf [of ?stem] by simp
    ultimately show ?thesis using True s by simp
  next
    case False
    with s have ct: "ct = ''pdf-to-docx''" by blast
    with s have p: "p = path_join (CONVERTED_FOLDER e) (?stem @ ''.docx'')" by simp
    have sh: "path_join (CONVERTED_FOLDER e) (?stem @ ''.docx'') = CONVERTED_FOLDER e @ ''/'' @ ?stem @ ''.docx''"
       "basename (CONVERTED_FOLDER e @ ''/'' @ ?stem @ ''.docx'') = ?stem @ ''.docx''"
      using converted_path_shape [of "''.docx''" e "ascii_fold e" "file_name file" "uuid4 e"] by simp_all
    have "extension p = ''.docx''"
      unfolding p sh(1) using extension_docx [of "CONVERTED_FOLDER e @ ''/'' @ ?stem"] by simp
    moreover have "extension n = ''.docx''"
      using s p sh extension_docx [of ?stem] by simp
    ultimately show ?thesis using ct s by simp
  qed
qed

text \<open>C3, at a concrete request: \<open>report.docx\<close> converted to PDF.\<close>

theorem C3_extension_and_content_type_match_witness:
  "type_field (example_request ''report.docx'' ''hello'' ''docx-to-pdf'') = Some ''docx-to-pdf'' \<and>
   file_part (example_request ''report.docx'' ''hello'' ''docx-to-pdf'') =
     Some \<lparr>file_name = ''report.docx'', file_data = ''hello''\<rparr> \<and>
   fst (convert_file example_env (example_request ''report.docx'' ''hello'' ''docx-to-pdf'') empty_world) =
     SendFile ''/srv/converted/report-00000000000000000000000000000000.pdf'' ''report-00000000000000000000000000000000.pdf'' ''application/pdf'' ''%PDFhello'' \<and>
   extension ''/srv/converted/report-00000000000000000000000000000000.pdf'' = ''.pdf'' \<and>
   extension ''report-00000000000000000000000000000000.pdf'' = ''.pdf''"
proof -
  have t: "type_field (example_request ''report.docx'' ''hello'' ''docx-to-pdf'') = Some ''docx-to-pdf''"
    by (simp add: example_request_def)
  have f: "file_part (example_request ''report.docx'' ''hello'' ''docx-to-pdf'') =
     Some \<lparr>file_name = ''report.docx'', file_data = ''hello''\<rparr>"
    by (simp add: example_request_def)
  have c: "fst (convert_file example_env (example_request ''report.docx'' ''hello'' ''docx-to-pdf'') empty_world) =
     SendFile ''/srv/converted/report-00000000000000000000000000000000.pdf'' ''report-00000000000000000000000000000000.pdf'' ''application/pdf'' ''%PDFhello''"
    by code_simp
  from C3_extension_and_content_type_match [OF t f c] t f c show ?thesis by simp
qed

subsection \<open>C4: the stored upload stays in the upload directory\<close>

text \<open>
  C4. Whatever file name the client sends, the sanitized name has no path separator and
  is neither \<open>.\<close> nor \<open>..\<close>, so the path the upload is stored at is the upload directory,
  a separator and the sanitized name, and it leads to the upload directory or below it.
\<close>

theorem C4_upload_path_within_upload_directory:
  "CHR ''/'' \<notin> set (secure_filename (ascii_fold e) fname) \<and>
   secure_filename (ascii_fold e) fname \<noteq> ''.'' \<and>
   secure_filename (ascii_fold e) fname \<noteq> ''..'' \<and>
   path_join (UPLOAD_FOLDER e) (secure_filename (ascii_fold e) fname) =
     UPLOAD_FOLDER e @ ''/'' @ secure_filename (ascii_fold e) fname \<and>
   within_dir (UPLOAD_FOLDER e)
     (path_join (UPLOAD_FOLDER e) (secure_filename (ascii_fold e) fname))"
proof -
  let ?n = "secure_filename (ascii_fold e) fname"
  have ns: "CHR ''/'' \<notin> set ?n" by (rule secure_filename_no_slash)
  have nd: "?n \<noteq> ''.''" "?n \<noteq> ''..''" using secure_filename_not_dots by auto
  have j: "path_join (UPLOAD_FOLDER e) ?n = UPLOAD_FOLDER e @ ''/'' @ ?n"
    using UPLOAD_FOLDER_shape [of e] ns by (intro path_join_relative) auto
  have "normpath_parts (UPLOAD_FOLDER e @ CHR ''/'' # ?n) =
          (if ?n = [] then normpath_parts (UPLOAD_FOLDER e) else normpath_parts (UPLOAD_FOLDER e) @ [?n])"
    using ns nd by (rule normpath_parts_child)
  then have "within_dir (UPLOAD_FOLDER e) (UPLOAD_FOLDER e @ ''/'' @ ?n)"
    by (simp add: within_dir_def)
  with ns nd j show ?thesis by simp
qed

subsection \<open>C5: the name of the artifact\<close>

text \<open>
  C5, as stated, fails: for \<open>a.b.docx\<close> the artifact is named \<open>a-token.pdf\<close>, while the
  sanitized name with its extension removed gives \<open>a.b-token.pdf\<close>.
\<close>

theorem C5_name_cut_at_first_dot_counterexample:
  "download_name (fst (convert_file example_env (example_request ''a.b.docx'' ''hello'' ''docx-to-pdf'')
                        empty_world)) = ''a-00000000000000000000000000000000.pdf'' \<and>
   spec_artifact_name (secure_filename (ascii_fold example_env) ''a.b.docx'')
     (uuid_hex (uuid4 example_env)) ''pdf'' = ''a.b-00000000000000000000000000000000.pdf'' \<and>
   download_name (fst (convert_file example_env (example_request ''a.b.docx'' ''hello'' ''docx-to-pdf'')
                        empty_world)) \<noteq>
   spec_artifact_name (secure_filename (ascii_fold example_env) ''a.b.docx'')
     (uuid_hex (uuid4 example_env)) ''pdf''"
  by code_simp

text \<open>
  C5, amended. Whenever the handler answers with the file, the artifact's name is the
  sanitized name up to its first dot, a hyphen, the 32 hex digits of the UUID, a dot and
  the extension of the target format, and the artifact lies in the converted directory.
  When the sanitized name has at most one dot, this is the name with its extension
  removed, as the specification words it.
\<close>

theorem C5_artifact_name_from_first_dot:
  assumes "type_field req = Some ct"
    and "file_part req = Some file"
    and "fst (convert_file e req w) = SendFile p n t b"
  shows "n = takeWhile (\<lambda>c. c \<noteq> CHR ''.'') (secure_filename (ascii_fold e) (file_name file)) @
               ''-'' @ uuid_hex (uuid4 e) @ ''.'' @ (if ct = ''docx-to-pdf'' then ''pdf'' else ''docx'') \<and>
         p = CONVERTED_FOLDER e @ ''/'' @ n \<and>
         length (uuid_hex (uuid4 e)) = 32 \<and>
         (length (filter (\<lambda>c. c = CHR ''.'') (secure_filename (ascii_fold e) (file_name file))) \<le> 1 \<longrightarrow>
            n = spec_artifact_name (secure_filename (ascii_fold e) (file_name file)) (uuid_hex (uuid4 e))
                  (if ct = ''docx-to-pdf'' then ''pdf'' else ''docx''))"
proof -
  let ?name = "secure_filename (ascii_fold e) (file_name file)"
  let ?stem = "hd (py_split CHR ''.'' ?name) @ ''-'' @ uuid_hex (uuid4 e)"
  let ?ext = "if ct = ''docx-to-pdf'' then ''.pdf'' else ''.docx''"
  note s = convert_try_SendFile [OF assms(1,2) convert_file_SendFile_fst [OF assms(3)]]
  have e: "?ext = ''.pdf'' \<or> ?ext = ''.docx''" by simp
  note sh = converted_path_shape [OF e, of e "ascii_fold e" "file_name file" "uuid4 e"]
  from s have p: "p = path_join (CONVERTED_FOLDER e) (?stem @ ?ext)" by simp
  with sh have p': "p = CONVERTED_FOLDER e @ ''/'' @ ?stem @ ?ext" by simp
  from s p' sh have n: "n = ?stem @ ?ext" by simp
  have n': "n = takeWhile (\<lambda>c. c \<noteq> CHR ''.'') ?name @ ''-'' @ uuid_hex (uuid4 e) @ ''.'' @
                  (if ct = ''docx-to-pdf'' then ''pdf'' else ''docx'')"
    unfolding n by (simp add: hd_py_split)
  have sp: "length (filter (\<lambda>c. c = CHR ''.'') ?name) \<le> 1 \<longrightarrow>
            n = spec_artifact_name ?name (uuid_hex (uuid4 e)) (if ct = ''docx-to-pdf'' then ''pdf'' else ''docx'')"
    using n' by (simp add: spec_artifact_name_def spec_base_name_one_dot)
  from n' p' n sp show ?thesis by (simp add: length_uuid_hex)
qed

text \<open>C5 amended, at a concrete request: \<open>report.docx\<close> converted to PDF.\<close>

theorem C5_artifact_name_from_first_dot_witness:
  "type_field (example_request ''report.docx'' ''hello'' ''docx-to-pdf'') = Some ''docx-to-pdf'' \<and>
   file_part (example_request ''report.docx'' ''hello'' ''docx-to-pdf'') =
     Some \<lparr>file_name = ''report.docx'', file_data = ''hello''\<rparr> \<and>
   fst (convert_file example_env (example_request ''report.docx'' ''hello'' ''docx-to-pdf'') empty_world) =
     SendFile ''/srv/converted/report-00000000000000000000000000000000.pdf'' ''report-00000000000000000000000000000000.pdf'' ''application/pdf'' ''%PDFhello'' \<and>
   length (filter (\<lambda>c. c = CHR ''.'') (secure_filename (ascii_fold example_env) ''report.docx'')) \<le> 1 \<and>
   ''report-00000000000000000000000000000000.pdf'' =
     spec_artifact_name (secure_filename (ascii_fold example_env) ''report.docx'')
       (uuid_hex (uuid4 example_env)) ''pdf''"
proof -
  have t: "type_field (example_request ''report.docx'' ''hello'' ''docx-to-pdf'') = Some ''docx-to-pdf''"
    by (simp add: example_request_def)
  have f: "file_part (example_request ''report.docx'' ''hello'' ''docx-to-pdf'') =
     Some \<lparr>file_name = ''report.docx'', file_data = ''hello''\<rparr>"
    by (simp add: example_request_def)
  have c: "fst (convert_file example_env (example_request ''report.docx'' ''hello'' ''docx-to-pdf'') empty_world) =
     SendFile ''/srv/converted/report-00000000000000000000000000000000.pdf'' ''report-00000000000000000000000000000000.pdf'' ''application/pdf'' ''%PDFhello''"
    by code_simp
  have d: "length (filter (\<lambda>c. c = CHR ''.'') (secure_filename (ascii_fold example_env) ''report.docx'')) \<le> 1"
    by code_simp
  from C5_artifact_name_from_first_dot [OF t f c] t f c d show ?thesis by simp
qed

subsection \<open>C6: a full page\<close>

text \<open>
  C6. With exactly 38 one-line paragraphs, the number of lines a page holds, the saved
  document has two pages and the second has no text: the loop breaks the page right
  after the 38th line and sets the font on the new page, and \<open>save\<close> closes that page
  too. With 37 paragraphs there is one page, with 39 there are two, and in general N
  paragraphs give \<open>N div 38 + 1\<close> pages.
\<close>

theorem C6_full_page_gives_blank_second_page:
  "map drawn (pdf_pages (canvas_calls (replicate 38 ''line''))) = [38, 0] \<and>
   length (pdf_pages (canvas_calls (replicate 38 ''line''))) = 2 \<and>
   length (pdf_pages (canvas_calls (replicate 37 ''line''))) = 1 \<and>
   length (pdf_pages (canvas_calls (replicate 39 ''line''))) = 2 \<and>
   length (pdf_pages (canvas_calls paras)) = length paras div 38 + 1"
proof -
  have "map drawn (pdf_pages (canvas_calls (replicate 38 ''line''))) =
          replicate (length (replicate 38 ''line'') div 38) 38 @ [length (replicate 38 ''line'') mod 38]"
    by (rule pdf_pages_lines)
  then have a: "map drawn (pdf_pages (canvas_calls (replicate 38 ''line''))) = [38, 0]"
    by simp
  have b: "length (pdf_pages (canvas_calls (replicate n ''line''))) = n div 38 + 1" for n
    using pdf_pages_count [of "replicate n ''line''"] by simp
  from a b [of 38] b [of 37] b [of 39] pdf_pages_count [of paras] show ?thesis
    by simp
qed

subsection \<open>C8: an unrecognized conversion type\<close>

text \<open>
  C8, as stated, fails: a request with the type \<open>docx-to-rtf\<close> and no file part is
  answered "No file uploaded"; a request with a file and an empty type is answered
  "Conversion type not specified"; and a request whose file name sanitizes to the empty
  name, or one that meets a full disk, is answered with status 500, because the upload
  cannot be stored.
\<close>

theorem C8_other_answers_counterexample:
  "fst (convert_file example_env (no_file_request ''docx-to-rtf'') empty_world) =
     Json 400 ''No file uploaded'' \<and>
   fst (convert_file example_env (example_request ''report.docx'' ''hello'' []) empty_world) =
     Json 400 ''Conversion type not specified'' \<and>
   fst (convert_file example_env (example_request [] ''hello'' ''docx-to-rtf'') empty_world) =
     Json 500 (''Conversion failed: [Errno 21] Is a directory: '' @ [CHR 0x27] @ ''/srv/uploads/'' @ [CHR 0x27]) \<and>
   fst (convert_file full_disk_env (example_request ''report.docx'' ''hello'' ''docx-to-rtf'') empty_world) =
     Json 500 ''Conversion failed: [Errno 28] No space left on device''"
  by code_simp

text \<open>
  C8, amended. A request with a file part and a type that is not empty and is neither
  pdf-to-docx nor docx-to-pdf, whose upload is stored (the sanitized name is not empty
  and the disk accepts the write), is answered with status 400 and the message
  "Invalid conversion type".
\<close>

theorem C8_invalid_type_rejected:
  assumes "file_part req = Some file"
    and "type_field req = Some ct"
    and "ct \<noteq> []" and "ct \<noteq> ''pdf-to-docx''" and "ct \<noteq> ''docx-to-pdf''"
    and "secure_filename (ascii_fold e) (file_name file) \<noteq> []"
    and "disk_error e (UPLOAD_FOLDER e @ ''/'' @ secure_filename (ascii_fold e) (file_name file)) = None"
  shows "fst (convert_file e req w) = Json 400 ''Invalid conversion type''"
proof -
  let ?n = "secure_filename (ascii_fold e) (file_name file)"
  have "CHR ''/'' \<notin> set ?n" by (rule secure_filename_no_slash)
  then have j: "path_join (UPLOAD_FOLDER e) ?n = UPLOAD_FOLDER e @ ''/'' @ ?n"
    using UPLOAD_FOLDER_shape [of e] by (intro path_join_relative) auto
  from assms(7) have d: "disk_error e (path_join (UPLOAD_FOLDER e) ?n) = None"
    by (simp only: j)
  from assms(1-5) upload_write_ok [OF assms(6) d, of "file_data file" w] show ?thesis
    by (simp add: convert_file_def convert_try_def Let_def)
qed

text \<open>C8 amended, at a concrete request: \<open>report.docx\<close> with the type \<open>docx-to-rtf\<close>.\<close>

theorem C8_invalid_type_rejected_witness:
  "file_part (example_request ''report.docx'' ''hello'' ''docx-to-rtf'') =
     Some \<lparr>file_name = ''report.docx'', file_data = ''hello''\<rparr> \<and>
   type_field (example_request ''report.docx'' ''hello'' ''docx-to-rtf'') = Some ''docx-to-rtf'' \<and>
   ''docx-to-rtf'' \<noteq> [] \<and> ''docx-to-rtf'' \<noteq> ''pdf-to-docx'' \<and> ''docx-to-rtf'' \<noteq> ''docx-to-pdf'' \<and>
   secure_filename (ascii_fold example_env) (file_name \<lparr>file_name = ''report.docx'', file_data = ''hello''\<rparr>) \<noteq> [] \<and>
   disk_error example_env (UPLOAD_FOLDER example_env @ ''/'' @
      secure_filename (ascii_fold example_env) (file_name \<lparr>file_name = ''report.docx'', file_data = ''hello''\<rparr>)) = None \<and>
   fst (convert_file example_env (example_request ''report.docx'' ''hello'' ''docx-to-rtf'') empty_world) =
     Json 400 ''Invalid conversion type''"
proof -
  have f: "file_part (example_request ''report.docx'' ''hello'' ''docx-to-rtf'') =
     Some \<lparr>file_name = ''report.docx'', file_data = ''hello''\<rparr>"
    by (simp add: example_request_def)
  have t: "type_field (example_request ''report.docx'' ''hello'' ''docx-to-rtf'') = Some ''docx-to-rtf''"
    by (simp add: example_request_def)
  have c: "''docx-to-rtf'' \<noteq> []" "''docx-to-rtf'' \<noteq> ''pdf-to-docx''" "''docx-to-rtf'' \<noteq> ''docx-to-pdf''"
    by simp_all
  have n: "secure_filename (ascii_fold example_env) (file_name \<lparr>file_name = ''report.docx'', file_data = ''hello''\<rparr>) \<noteq> []"
    by code_simp
  have d: "disk_error example_env (UPLOAD_FOLDER example_env @ ''/'' @
      secure_filename (ascii_fold example_env) (file_name \<lparr>file_name = ''report.docx'', file_data = ''hello''\<rparr>)) = None"
    by (simp add: example_env_def)
  from C8_invalid_type_rejected [OF f t c n d, of empty_world] f t c n d show ?thesis by simp
qed

subsection \<open>C9: a request without a file\<close>

text \<open>
  C9. A request without the file part is answered with status 400 and the message
  "No file uploaded", and the world is as it was: no file is read or written and
  nothing is printed.
\<close>

theorem C9_missing_file_rejected_without_effect:
  "file_part req = None \<Longrightarrow> convert_file e req w = (Json 400 ''No file uploaded'', w)"
  by (simp add: convert_file_def convert_try_def)

text \<open>C9, at a concrete request without a file part.\<close>

theorem C9_missing_file_rejected_without_effect_witness:
  "file_part (no_file_request ''docx-to-pdf'') = None \<and>
   convert_file example_env (no_file_request ''docx-to-pdf'') empty_world =
     (Json 400 ''No file uploaded'', empty_world)"
  using C9_missing_file_rejected_without_effect
          [of "no_file_request ''docx-to-pdf''" example_env empty_world]
  by (simp add: no_file_request_def)

subsection \<open>C10: the upload is stored before the type is rejected\<close>

text \<open>
  C10, as stated, fails: with a file and an empty type the answer is 400 and nothing is
  written or printed; and when the file name sanitizes to the empty name, or the disk is
  full, the upload cannot be stored, the answer is 500 and no file is written.
\<close>

theorem C10_nothing_stored_counterexample:
  "convert_file example_env (example_request ''report.docx'' ''hello'' []) empty_world =
     (Json 400 ''Conversion type not specified'', empty_world) \<and>
   fst (convert_file example_env (example_request [] ''hello'' ''docx-to-rtf'') empty_world) =
     Json 500 (''Conversion failed: [Errno 21] Is a directory: '' @ [CHR 0x27] @ ''/srv/uploads/'' @ [CHR 0x27]) \<and>
   files (snd (convert_file example_env (example_request [] ''hello'' ''docx-to-rtf'') empty_world)) =
     files empty_world \<and>
   fst (convert_file full_disk_env (example_request ''report.docx'' ''hello'' ''docx-to-rtf'') empty_world) =
     Json 500 ''Conversion failed: [Errno 28] No space left on device'' \<and>
   files (snd (convert_file full_disk_env (example_request ''report.docx'' ''hello'' ''docx-to-rtf'')
                 empty_world)) = files empty_world"
proof -
  have a: "convert_file example_env (example_request ''report.docx'' ''hello'' []) empty_world =
     (Json 400 ''Conversion type not specified'', empty_world)"
    by (simp add: convert_file_def convert_try_def example_request_def)
  have n: "secure_filename (ascii_fold example_env) [] = []" by code_simp
  have u: "UPLOAD_FOLDER example_env = ''/srv/uploads''" by code_simp
  have w: "fs_write example_env (path_join (UPLOAD_FOLDER example_env)
              (secure_filename (ascii_fold example_env) [])) ''hello'' empty_world =
           Inl (IsADirectoryError (UPLOAD_FOLDER example_env @ ''/''))"
    using n by (rule upload_write_empty_name)
  have b: "convert_file example_env (example_request [] ''hello'' ''docx-to-rtf'') empty_world =
     (Json 500 (''Conversion failed: [Errno 21] Is a directory: '' @ [CHR 0x27] @ ''/srv/uploads/'' @ [CHR 0x27]),
      print (''Error during conversion: [Errno 21] Is a directory: '' @ [CHR 0x27] @ ''/srv/uploads/'' @ [CHR 0x27])
        empty_world)"
    using w u by (simp add: convert_file_def convert_try_def example_request_def Let_def)
  have n2: "secure_filename (ascii_fold full_disk_env) ''report.docx'' = ''report.docx''"
    by code_simp
  have u2: "UPLOAD_FOLDER full_disk_env = ''/srv/uploads''" by code_simp
  have w2: "fs_write full_disk_env ''/srv/uploads/report.docx'' ''hello'' empty_world =
            Inl (OSError ''[Errno 28] No space left on device'')"
    by (simp add: fs_write_def full_disk_env_def)
  have c: "convert_file full_disk_env (example_request ''report.docx'' ''hello'' ''docx-to-rtf'') empty_world =
     (Json 500 ''Conversion failed: [Errno 28] No space left on device'',
      print ''Error during conversion: [Errno 28] No space left on device'' empty_world)"
    using n2 u2 w2
    by (simp add: convert_file_def convert_try_def example_request_def Let_def path_join_def)
  from a b c show ?thesis by simp
qed

text \<open>
  C10, amended. For a request with a file part and a type that is not empty and is
  neither of the two literals, whose upload is stored (the sanitized name is not empty
  and the disk accepts the write), the answer is 400 "Invalid conversion type" and the
  world has changed: the uploaded bytes are on disk under the sanitized name in the
  upload directory and the line about the saved upload is printed. For a request with a
  file part and a missing or empty type the answer is 400 and the world is as it was.
\<close>

theorem C10_invalid_type_rejected_after_storing:
  "(file_part req = Some file \<and> type_field req = Some ct \<and>
    ct \<noteq> [] \<and> ct \<noteq> ''pdf-to-docx'' \<and> ct \<noteq> ''docx-to-pdf'' \<and>
    secure_filename (ascii_fold e) (file_name file) \<noteq> [] \<and>
    disk_error e (UPLOAD_FOLDER e @ ''/'' @ secure_filename (ascii_fold e) (file_name file)) = None \<longrightarrow>
      convert_file e req w =
        (Json 400 ''Invalid conversion type'',
         w\<lparr>files := (files w)(UPLOAD_FOLDER e @ ''/'' @ secure_filename (ascii_fold e) (file_name file)
                               \<mapsto> file_data file),
           stdout := stdout w @ [''Uploaded file saved at: '' @ UPLOAD_FOLDER e @ ''/'' @
                                  secure_filename (ascii_fold e) (file_name file)]\<rparr>) \<and>
      snd (convert_file e req w) \<noteq> w) \<and>
   (file_part req = Some file \<and> (type_field req = None \<or> type_field req = Some []) \<longrightarrow>
      convert_file e req w = (Json 400 ''Conversion type not specified'', w))"
proof -
  let ?n = "secure_filename (ascii_fold e) (file_name file)"
  have ns: "CHR ''/'' \<notin> set ?n" by (rule secure_filename_no_slash)
  have j: "path_join (UPLOAD_FOLDER e) ?n = UPLOAD_FOLDER e @ ''/'' @ ?n"
    using UPLOAD_FOLDER_shape [of e] ns by (intro path_join_relative) auto
  have a: "convert_file e req w =
        (Json 400 ''Invalid conversion type'',
         w\<lparr>files := (files w)(UPLOAD_FOLDER e @ ''/'' @ ?n \<mapsto> file_data file),
           stdout := stdout w @ [''Uploaded file saved at: '' @ UPLOAD_FOLDER e @ ''/'' @ ?n]\<rparr>)"
    if h: "file_part req = Some file" "type_field req = Some ct"
      "ct \<noteq> []" "ct \<noteq> ''pdf-to-docx''" "ct \<noteq> ''docx-to-pdf''" "?n \<noteq> []"
      "disk_error e (UPLOAD_FOLDER e @ ''/'' @ ?n) = None"
  proof -
    from h(7) have d: "disk_error e (path_join (UPLOAD_FOLDER e) ?n) = None" by (simp only: j)
    from h upload_write_ok [OF h(6) d, of "file_data file" w] show ?thesis
      by (simp add: convert_file_def convert_try_def Let_def j print_def)
  qed
  have b: "w\<lparr>files := fs, stdout := stdout w @ [m]\<rparr> \<noteq> w" for fs m
  proof
    assume "w\<lparr>files := fs, stdout := stdout w @ [m]\<rparr> = w"
    then have "stdout (w\<lparr>files := fs, stdout := stdout w @ [m]\<rparr>) = stdout w" by simp
    then show False by simp
  qed
  have c: "convert_file e req w = (Json 400 ''Conversion type not specified'', w)"
    if "file_part req = Some file" "type_field req = None \<or> type_field req = Some []"
    using that by (auto simp: convert_file_def convert_try_def)
  show ?thesis
  proof (intro conjI impI)
    assume h: "file_part req = Some file \<and> type_field req = Some ct \<and>
      ct \<noteq> [] \<and> ct \<noteq> ''pdf-to-docx'' \<and> ct \<noteq> ''docx-to-pdf'' \<and> ?n \<noteq> [] \<and>
      disk_error e (UPLOAD_FOLDER e @ ''/'' @ ?n) = None"
    then show r: "convert_file e req w =
        (Json 400 ''Invalid conversion type'',
         w\<lparr>files := (files w)(UPLOAD_FOLDER e @ ''/'' @ ?n \<mapsto> file_data file),
           stdout := stdout w @ [''Uploaded file saved at: '' @ UPLOAD_FOLDER e @ ''/'' @ ?n]\<rparr>)"
      using a by blast
    show "snd (convert_file e req w) \<noteq> w"
      unfolding r snd_conv by (rule b)
  next
    assume "file_part req = Some file \<and> (type_field req = None \<or> type_field req = Some [])"
    then show "convert_file e req w = (Json 400 ''Conversion type not specified'', w)"
      using c by blast
  qed
qed

text \<open>C10 amended, at concrete requests: an unrecognized type, and an empty type.\<close>

theorem C10_invalid_type_rejected_after_storing_witness:
  "file_part (example_request ''report.docx'' ''hello'' ''docx-to-rtf'') =
     Some \<lparr>file_name = ''report.docx'', file_data = ''hello''\<rparr> \<and>
   type_field (example_request ''report.docx'' ''hello'' ''docx-to-rtf'') = Some ''docx-to-rtf'' \<and>
   ''docx-to-rtf'' \<noteq> [] \<and> ''docx-to-rtf'' \<noteq> ''pdf-to-docx'' \<and> ''docx-to-rtf'' \<noteq> ''docx-to-pdf'' \<and>
   secure_filename (ascii_fold example_env) ''report.docx'' = ''report.docx'' \<and>
   disk_error example_env (UPLOAD_FOLDER example_env @ ''/'' @ ''report.docx'') = None \<and>
   convert_file example_env (example_request ''report.docx'' ''hello'' ''docx-to-rtf'') empty_world =
     (Json 400 ''Invalid conversion type'',
      \<lparr>files = [''/srv/uploads/report.docx'' \<mapsto> ''hello''],
       stdout = [''Uploaded file saved at: /srv/uploads/report.docx'']\<rparr>) \<and>
   file_part (example_request ''report.docx'' ''hello'' []) =
     Some \<lparr>file_name = ''report.docx'', file_data = ''hello''\<rparr> \<and>
   type_field (example_request ''report.docx'' ''hello'' []) = Some [] \<and>
   convert_file example_env (example_request ''report.docx'' ''hello'' []) empty_world =
     (Json 400 ''Conversion type not specified'', empty_world)"
proof -
  let ?F = "\<lparr>file_name = ''report.docx'', file_data = ''hello''\<rparr>"
  have f: "file_part (example_request ''report.docx'' ''hello'' ''docx-to-rtf'') = Some ?F"
    by (simp add: example_request_def)
  have t: "type_field (example_request ''report.docx'' ''hello'' ''docx-to-rtf'') = Some ''docx-to-rtf''"
    by (simp add: example_request_def)
  have c: "''docx-to-rtf'' \<noteq> []" "''docx-to-rtf'' \<noteq> ''pdf-to-docx''" "''docx-to-rtf'' \<noteq> ''docx-to-pdf''"
    by simp_all
  have n: "secure_filename (ascii_fold example_env) ''report.docx'' = ''report.docx''"
    by code_simp
  have u: "UPLOAD_FOLDER example_env = ''/srv/uploads''" by code_simp
  have d: "disk_error example_env (UPLOAD_FOLDER example_env @ ''/'' @ ''report.docx'') = None"
    by (simp add: example_env_def)
  have f2: "file_part (example_request ''report.docx'' ''hello'' []) = Some ?F"
    by (simp add: example_request_def)
  have t2: "type_field (example_request ''report.docx'' ''hello'' []) = Some []"
    by (simp add: example_request_def)
  note one = C10_invalid_type_rejected_after_storing [of "example_request ''report.docx'' ''hello'' ''docx-to-rtf''" ?F "''docx-to-rtf''"
                     example_env empty_world, THEN conjunct1]
  note two = C10_invalid_type_rejected_after_storing [of "example_request ''report.docx'' ''hello'' []" ?F "[]"
                     example_env empty_world, THEN conjunct2]
  from one f t c n d
  have r1: "convert_file example_env (example_request ''report.docx'' ''hello'' ''docx-to-rtf'') empty_world =
     (Json 400 ''Invalid conversion type'',
      \<lparr>files = [''/srv/uploads/report.docx'' \<mapsto> ''hello''],
       stdout = [''Uploaded file saved at: /srv/uploads/report.docx'']\<rparr>)"
    by (simp add: u empty_world_def)
  from two f2 t2
  have r2: "convert_file example_env (example_request ''report.docx'' ''hello'' []) empty_world =
     (Json 400 ''Conversion type not specified'', empty_world)"
    by simp
  from f t c n d r1 f2 t2 r2 show ?thesis by simp
qed

end
